theory Spec2Isabelle
  imports Complex_Main
begin

section \<open>JavaScript numbers\<close>

text \<open>
  A JavaScript \<^verbatim>\<open>number\<close> is modelled as a real number or one of the three special
  values of IEEE-754. Finite arithmetic is exact (rounding is not modelled); the special
  values follow IEEE-754. The zero divisors of this program are array lengths, so a
  zero divisor is the positive zero.
\<close>

datatype jsnum = Num real | PInf | NInf | NaN

fun jneg :: "jsnum \<Rightarrow> jsnum" where
  "jneg (Num a) = Num (- a)"
| "jneg PInf = NInf"
| "jneg NInf = PInf"
| "jneg NaN = NaN"

fun jadd :: "jsnum \<Rightarrow> jsnum \<Rightarrow> jsnum" where
  "jadd NaN _ = NaN"
| "jadd _ NaN = NaN"
| "jadd (Num a) (Num b) = Num (a + b)"
| "jadd PInf NInf = NaN"
| "jadd NInf PInf = NaN"
| "jadd PInf _ = PInf"
| "jadd _ PInf = PInf"
| "jadd NInf _ = NInf"
| "jadd _ NInf = NInf"

definition jsub :: "jsnum \<Rightarrow> jsnum \<Rightarrow> jsnum" where
  "jsub a b = jadd a (jneg b)"

fun jmul :: "jsnum \<Rightarrow> jsnum \<Rightarrow> jsnum" where
  "jmul NaN _ = NaN"
| "jmul _ NaN = NaN"
| "jmul (Num a) (Num b) = Num (a * b)"
| "jmul (Num a) PInf = (if a = 0 then NaN else if 0 < a then PInf else NInf)"
| "jmul (Num a) NInf = (if a = 0 then NaN else if 0 < a then NInf else PInf)"
| "jmul PInf (Num b) = (if b = 0 then NaN else if 0 < b then PInf else NInf)"
| "jmul NInf (Num b) = (if b = 0 then NaN else if 0 < b then NInf else PInf)"
| "jmul PInf PInf = PInf"
| "jmul PInf NInf = NInf"
| "jmul NInf PInf = NInf"
| "jmul NInf NInf = PInf"

fun jdiv :: "jsnum \<Rightarrow> jsnum \<Rightarrow> jsnum" where
  "jdiv NaN _ = NaN"
| "jdiv _ NaN = NaN"
| "jdiv (Num a) (Num b) =
     (if b \<noteq> 0 then Num (a / b)
      else if a = 0 then NaN else if 0 < a then PInf else NInf)"
| "jdiv (Num a) PInf = Num 0"
| "jdiv (Num a) NInf = Num 0"
| "jdiv PInf (Num b) = (if 0 \<le> b then PInf else NInf)"
| "jdiv NInf (Num b) = (if 0 \<le> b then NInf else PInf)"
| "jdiv _ _ = NaN"

fun jexp :: "jsnum \<Rightarrow> jsnum" where
  "jexp (Num a) = Num (exp a)"
| "jexp PInf = PInf"
| "jexp NInf = Num 0"
| "jexp NaN = NaN"

fun jabs :: "jsnum \<Rightarrow> jsnum" where
  "jabs (Num a) = Num \<bar>a\<bar>"
| "jabs PInf = PInf"
| "jabs NInf = PInf"
| "jabs NaN = NaN"

text \<open>The comparisons \<^verbatim>\<open>>=\<close> and \<^verbatim>\<open>>\<close>: false as soon as one side is NaN.\<close>

fun jge :: "jsnum \<Rightarrow> jsnum \<Rightarrow> bool" where
  "jge NaN _ = False"
| "jge _ NaN = False"
| "jge (Num a) (Num b) = (b \<le> a)"
| "jge PInf _ = True"
| "jge _ NInf = True"
| "jge _ _ = False"

fun jgt :: "jsnum \<Rightarrow> jsnum \<Rightarrow> bool" where
  "jgt NaN _ = False"
| "jgt _ NaN = False"
| "jgt (Num a) (Num b) = (b < a)"
| "jgt PInf PInf = False"
| "jgt NInf _ = False"
| "jgt PInf _ = True"
| "jgt _ NInf = True"
| "jgt _ _ = False"

text \<open>
  Reading \<^verbatim>\<open>xs[i]\<close> in an arithmetic expression: an index out of range reads
  \<^verbatim>\<open>undefined\<close>, which arithmetic converts to NaN.
\<close>

definition js_nth :: "jsnum list \<Rightarrow> nat \<Rightarrow> jsnum" where
  "js_nth xs i = (if i < length xs then xs ! i else NaN)"

text \<open>
  \<^verbatim>\<open>x || 0\<close> on a number that may be absent: \<^verbatim>\<open>undefined\<close>, NaN and zero are
  falsy and give 0, every other number gives itself.
\<close>

fun or_zero :: "jsnum option \<Rightarrow> jsnum" where
  "or_zero None = Num 0"
| "or_zero (Some NaN) = Num 0"
| "or_zero (Some (Num a)) = (if a = 0 then Num 0 else Num a)"
| "or_zero (Some x) = x"

section \<open>The logistic regression model (mlModel)\<close>

record LogisticRegression =
  weights :: "jsnum list"
  bias :: jsnum
  learningRate :: jsnum
  iterations :: int

text \<open>
  The constructor: the field initialisers give \<^verbatim>\<open>weights = []\<close> and
  \<^verbatim>\<open>bias = 0\<close>, the body stores the two hyperparameters (defaults 0.1 and 1000).
\<close>

definition new_LogisticRegression :: "jsnum \<Rightarrow> int \<Rightarrow> LogisticRegression" where
  "new_LogisticRegression lr its =
     \<lparr>weights = [], bias = Num 0, learningRate = lr, iterations = its\<rparr>"

definition sigmoid :: "jsnum \<Rightarrow> jsnum" where
  "sigmoid z = jdiv (Num 1) (jadd (Num 1) (jexp (jneg z)))"

text \<open>
  \<^verbatim>\<open>x.reduce((acc, val, idx) => acc + val * this.weights[idx], 0)\<close>: a left fold over
  the positions of \<open>x\<close>.
\<close>

definition linear_reduce :: "jsnum list \<Rightarrow> jsnum list \<Rightarrow> jsnum" where
  "linear_reduce x ws =
     fold (\<lambda>idx acc. jadd acc (jmul (x ! idx) (js_nth ws idx))) [0..<length x] (Num 0)"

definition predictProba :: "LogisticRegression \<Rightarrow> jsnum list \<Rightarrow> jsnum" where
  "predictProba m x = sigmoid (jadd (linear_reduce x (weights m)) (bias m))"

definition predict :: "LogisticRegression \<Rightarrow> jsnum list \<Rightarrow> nat" where
  "predict m x = (if jge (predictProba m x) (Num 0.5) then 1 else 0)"

datatype js_error = TypeError

text \<open>
  One pass of the outer loop of \<^verbatim>\<open>fit\<close>: the accumulators \<open>dw\<close> and \<open>db\<close> are
  filled sample by sample (the inner loop over \<open>k\<close> updates \<open>dw\<close> in place), then the
  weights are updated in place and the bias last.
\<close>

definition accumulate_sample ::
  "LogisticRegression \<Rightarrow> jsnum list list \<Rightarrow> jsnum list \<Rightarrow> nat \<Rightarrow> nat
     \<Rightarrow> jsnum list \<times> jsnum \<Rightarrow> jsnum list \<times> jsnum" where
  "accumulate_sample m X y numFeatures j = (\<lambda>(dw, db).
     let linearModel = jadd (linear_reduce (X ! j) (weights m)) (bias m);
         yPred = sigmoid linearModel;
         diff = jsub yPred (js_nth y j)
     in (fold (\<lambda>k dw. dw[k := jadd (dw ! k) (jmul diff (js_nth (X ! j) k))])
            [0..<numFeatures] dw,
         jadd db diff))"

definition fit_round ::
  "jsnum list list \<Rightarrow> jsnum list \<Rightarrow> nat \<Rightarrow> nat \<Rightarrow> LogisticRegression \<Rightarrow> LogisticRegression" where
  "fit_round X y numSamples numFeatures m =
     (let (dw, db) = fold (accumulate_sample m X y numFeatures) [0..<numSamples]
                       (replicate numFeatures (Num 0), Num 0);
          ws = fold (\<lambda>k ws. ws[k := jsub (ws ! k)
                       (jdiv (jmul (learningRate m) (dw ! k)) (Num (real numSamples)))])
                 [0..<numFeatures] (weights m)
      in m\<lparr>weights := ws,
           bias := jsub (bias m) (jdiv (jmul (learningRate m) db) (Num (real numSamples)))\<rparr>)"

text \<open>
  \<^verbatim>\<open>fit\<close> returns the exception thrown, if any, and the model as it is afterwards.
  On an empty matrix \<^verbatim>\<open>X[0]\<close> is \<^verbatim>\<open>undefined\<close> and reading its length throws a
  TypeError before any field is assigned. Nothing else in the method throws.
\<close>

definition fit ::
  "LogisticRegression \<Rightarrow> jsnum list list \<Rightarrow> jsnum list \<Rightarrow> js_error option \<times> LogisticRegression" where
  "fit m X y =
     (case X of
        [] \<Rightarrow> (Some TypeError, m)
      | x0 # _ \<Rightarrow>
          let numSamples = length X;
              numFeatures = length x0;
              m0 = m\<lparr>weights := replicate numFeatures (Num 0), bias := Num 0\<rparr>
          in (None, fold (\<lambda>i. fit_round X y numSamples numFeatures)
                      [0..<nat (iterations m)] m0))"

section \<open>Patients and their encoding\<close>

datatype DeliveryType = Vaginal | Cesarean

datatype Location = Urban | Rural

text \<open>The optional field \<^verbatim>\<open>riskScore\<close> is never written by the program and is left out.\<close>

record Patient =
  id' :: int
  age :: real
  deliveryType :: DeliveryType
  laborDuration :: real
  complications :: bool
  los :: real
  location :: Location
  readmitted :: bool

definition preprocessPatient :: "Patient \<Rightarrow> jsnum list" where
  "preprocessPatient p =
     [ jdiv (Num (age p)) (Num 45),
       (if deliveryType p = Cesarean then Num 1 else Num 0),
       jdiv (Num (laborDuration p)) (Num 24),
       (if complications p then Num 1 else Num 0),
       jdiv (Num (los p)) (Num 10),
       (if location p = Rural then Num 1 else Num 0) ]"

section \<open>The cohort generator (dataGenerator)\<close>

text \<open>
  \<^verbatim>\<open>Math.random()\<close> is modelled by the sequence \<open>rnd\<close> of the values its successive
  calls return; the generator threads the number of calls made so far. Each record takes
  seven draws, in the order of the source.
\<close>

text \<open>Lines 31 to 36: the ground-truth probability, built up by successive increments.\<close>

definition readmissionProb :: "DeliveryType \<Rightarrow> bool \<Rightarrow> Location \<Rightarrow> real \<Rightarrow> real \<Rightarrow> real" where
  "readmissionProb dt compl loc a l =
     (let prob = 0.05;
          prob = (if dt = Cesarean then prob + 0.15 else prob);
          prob = (if compl then prob + 0.25 else prob);
          prob = (if loc = Rural then prob + 0.10 else prob);
          prob = (if 35 < a then prob + 0.10 else prob);
          prob = (if l < 3 \<and> dt = Vaginal then prob + 0.15 else prob)
      in prob)"

text \<open>The body of the loop for index \<open>i\<close>, entered after \<open>c\<close> draws.\<close>

definition make_patient :: "(nat \<Rightarrow> real) \<Rightarrow> nat \<Rightarrow> nat \<Rightarrow> Patient" where
  "make_patient rnd c i =
     (let a = real_of_int \<lfloor>rnd c * (45 - 18 + 1)\<rfloor> + 18;
          dt = (if 0.7 < rnd (c + 1) then Cesarean else Vaginal);
          loc = (if 0.4 < rnd (c + 2) then Urban else Rural);
          labor = real_of_int \<lfloor>rnd (c + 3) * 20\<rfloor> + 4;
          compl = (0.8 < rnd (c + 4));
          l = (if dt = Cesarean then 4 else 2);
          l = (if compl then l + 2 else l);
          l = l + real_of_int \<lfloor>rnd (c + 5) * 2\<rfloor>;
          prob = readmissionProb dt compl loc a l;
          r = (rnd (c + 6) < prob)
      in \<lparr>id' = int i + 1, age = a, deliveryType = dt, laborDuration = labor,
          complications = compl, los = l, location = loc, readmitted = r\<rparr>)"

definition generate_step :: "(nat \<Rightarrow> real) \<Rightarrow> nat \<Rightarrow> nat \<times> Patient list \<Rightarrow> nat \<times> Patient list" where
  "generate_step rnd i = (\<lambda>(c, patients). (c + 7, patients @ [make_patient rnd c i]))"

text \<open>The loop of \<^verbatim>\<open>generateMaternityData(count)\<close>; the caller's default count is 500.\<close>

definition generateMaternityData :: "int \<Rightarrow> (nat \<Rightarrow> real) \<Rightarrow> Patient list" where
  "generateMaternityData count rnd = snd (fold (generate_step rnd) [0..<nat count] (0, []))"

section \<open>The ethics audit (App)\<close>

definition auditGroup :: "LogisticRegression \<Rightarrow> Patient list \<Rightarrow> (Patient \<Rightarrow> bool) \<Rightarrow> jsnum" where
  "auditGroup model data filter' =
     (let group = filter filter' data;
          correct = length (filter (\<lambda>p.
                      let pred = predict model (preprocessPatient p)
                      in pred = (if readmitted p then 1 else 0)) group)
      in jmul (jdiv (Num (real correct)) (Num (real (length group)))) (Num 100))"

record EthicsAudit =
  accVaginal :: jsnum
  accCesarean :: jsnum
  accUrban :: jsnum
  accRural :: jsnum

definition ethicsAudit :: "LogisticRegression option \<Rightarrow> Patient list \<Rightarrow> EthicsAudit option" where
  "ethicsAudit model data =
     (case model of
        None \<Rightarrow> None
      | Some m \<Rightarrow>
          if length data = 0 then None
          else Some \<lparr>accVaginal = auditGroup m data (\<lambda>p. deliveryType p = Vaginal),
                     accCesarean = auditGroup m data (\<lambda>p. deliveryType p = Cesarean),
                     accUrban = auditGroup m data (\<lambda>p. location p = Urban),
                     accRural = auditGroup m data (\<lambda>p. location p = Rural)\<rparr>)"

text \<open>
  The condition of the "Bias Flag Status" panel. \<^verbatim>\<open>ethicsAudit?.accVaginal\<close> is
  \<^verbatim>\<open>undefined\<close> when the audit is null.
\<close>

definition biasFlagStatus :: "EthicsAudit option \<Rightarrow> bool" where
  "biasFlagStatus e =
     (jgt (jabs (jsub (or_zero (map_option accVaginal e)) (or_zero (map_option accCesarean e))))
          (Num 10)
      \<or> jgt (jabs (jsub (or_zero (map_option accUrban e)) (or_zero (map_option accRural e))))
          (Num 10))"

section \<open>Gradient descent as the specification words it\<close>

text \<open>
  The specification of \<^verbatim>\<open>fit\<close> over the reals, written from its sentences: the
  prediction error of a sample, the per-feature gradient and the bias gradient as sums
  over the whole batch, and the update of one round.
\<close>

definition spec_sigmoid :: "real \<Rightarrow> real" where
  "spec_sigmoid z = 1 / (1 + exp (- z))"

definition spec_dot :: "real list \<Rightarrow> real list \<Rightarrow> real" where
  "spec_dot ws x = sum_list (map (\<lambda>k. ws ! k * x ! k) [0..<length x])"

definition spec_error :: "real list \<Rightarrow> real \<Rightarrow> real list \<Rightarrow> real \<Rightarrow> real" where
  "spec_error ws b x label = spec_sigmoid (spec_dot ws x + b) - label"

definition spec_gradient :: "real list list \<Rightarrow> real list \<Rightarrow> real list \<Rightarrow> real \<Rightarrow> nat \<Rightarrow> real" where
  "spec_gradient X y ws b k =
     sum_list (map (\<lambda>j. spec_error ws b (X ! j) (y ! j) * X ! j ! k) [0..<length X])"

definition spec_biasGradient :: "real list list \<Rightarrow> real list \<Rightarrow> real list \<Rightarrow> real \<Rightarrow> real" where
  "spec_biasGradient X y ws b =
     sum_list (map (\<lambda>j. spec_error ws b (X ! j) (y ! j)) [0..<length X])"

definition spec_round :: "real \<Rightarrow> real list list \<Rightarrow> real list \<Rightarrow> real list \<times> real \<Rightarrow> real list \<times> real" where
  "spec_round lr X y = (\<lambda>(ws, b).
     (map (\<lambda>k. ws ! k - lr * spec_gradient X y ws b k / real (length X)) [0..<length ws],
      b - lr * spec_biasGradient X y ws b / real (length X)))"

section \<open>Arithmetic on finite numbers\<close>

lemma jsub_Num [simp]: "jsub (Num a) (Num b) = Num (a - b)"
  by (simp add: jsub_def)

lemma sigmoid_Num [simp]: "sigmoid (Num z) = Num (spec_sigmoid z)"
proof -
  have "0 < 1 + exp (- z)" by (simp add: add_pos_pos)
  then have "1 + exp (- z) \<noteq> 0" by simp
  then show ?thesis by (simp add: sigmoid_def spec_sigmoid_def)
qed

lemma js_nth_map_Num [simp]: "k < length xs \<Longrightarrow> js_nth (map Num xs) k = Num (xs ! k)"
  by (simp add: js_nth_def)

lemma linear_fold_Num:
  "n \<le> length x \<Longrightarrow> n \<le> length ws \<Longrightarrow>
   fold (\<lambda>idx acc. jadd acc (jmul (map Num x ! idx) (js_nth (map Num ws) idx))) [0..<n] (Num 0)
     = Num (sum_list (map (\<lambda>k. ws ! k * x ! k) [0..<n]))"
  by (induction n) (simp_all add: mult.commute)

lemma linear_reduce_Num:
  "length x \<le> length ws \<Longrightarrow> linear_reduce (map Num x) (map Num ws) = Num (spec_dot ws x)"
  using linear_fold_Num [of "length x" x ws] by (simp add: linear_reduce_def spec_dot_def)

lemma fold_update_upt:
  "n \<le> length xs \<Longrightarrow>
   fold (\<lambda>k xs. xs[k := f k (xs ! k)]) [0..<n] xs
     = map (\<lambda>k. if k < n then f k (xs ! k) else xs ! k) [0..<length xs]"
proof (induction n)
  case 0
  show ?case by (simp add: map_nth)
next
  case (Suc n)
  then have IH: "fold (\<lambda>k xs. xs[k := f k (xs ! k)]) [0..<n] xs
     = map (\<lambda>k. if k < n then f k (xs ! k) else xs ! k) [0..<length xs]" by simp
  from Suc.prems have n: "n < length xs" by simp
  show ?case
    by (rule nth_equalityI) (use n in \<open>auto simp: IH nth_list_update less_Suc_eq\<close>)
qed

lemma accumulate_sample_Num:
  assumes w: "weights m = map Num ws" and b: "bias m = Num b"
    and n: "n < length Xr" and len: "length (Xr ! n) = d" and d: "length ws = d"
    and y: "length yr = length Xr"
  shows "accumulate_sample m (map (map Num) Xr) (map Num yr) d n
           (map (\<lambda>k. Num (S k)) [0..<d], Num t)
         = (map (\<lambda>k. Num (S k + spec_error ws b (Xr ! n) (yr ! n) * Xr ! n ! k)) [0..<d],
            Num (t + spec_error ws b (Xr ! n) (yr ! n)))"
proof -
  have lin: "linear_reduce (map Num (Xr ! n)) (map Num ws) = Num (spec_dot ws (Xr ! n))"
    by (rule linear_reduce_Num) (simp add: len d)
  have row: "map (map Num) Xr ! n = map Num (Xr ! n)"
    using n by simp
  have diff: "jsub (sigmoid (jadd (linear_reduce (map Num (Xr ! n)) (weights m)) (bias m)))
                (js_nth (map Num yr) n) = Num (spec_error ws b (Xr ! n) (yr ! n))"
    using n y by (simp add: w b lin spec_error_def)
  have inner: "fold (\<lambda>k dw. dw[k := jadd (dw ! k)
                     (jmul (Num (spec_error ws b (Xr ! n) (yr ! n))) (js_nth (map Num (Xr ! n)) k))])
                 [0..<d] (map (\<lambda>k. Num (S k)) [0..<d])
               = map (\<lambda>k. Num (S k + spec_error ws b (Xr ! n) (yr ! n) * Xr ! n ! k)) [0..<d]"
    using fold_update_upt [of d "map (\<lambda>k. Num (S k)) [0..<d]"
        "\<lambda>k v. jadd v (jmul (Num (spec_error ws b (Xr ! n) (yr ! n))) (js_nth (map Num (Xr ! n)) k))"]
    by (simp add: len)
  show ?thesis
    unfolding accumulate_sample_def row
    by (simp add: Let_def diff inner)
qed

lemma accumulate_loop_Num:
  assumes w: "weights m = map Num ws" and b: "bias m = Num b"
    and rows: "\<forall>row\<in>set Xr. length row = d" and d: "length ws = d"
    and y: "length yr = length Xr"
  shows "n \<le> length Xr \<Longrightarrow>
    fold (accumulate_sample m (map (map Num) Xr) (map Num yr) d) [0..<n]
         (replicate d (Num 0), Num 0)
      = (map (\<lambda>k. Num (sum_list (map (\<lambda>j. spec_error ws b (Xr ! j) (yr ! j) * Xr ! j ! k) [0..<n])))
             [0..<d],
         Num (sum_list (map (\<lambda>j. spec_error ws b (Xr ! j) (yr ! j)) [0..<n])))"
proof (induction n)
  case 0
  show ?case by (simp add: map_replicate_const)
next
  case (Suc n)
  then have n: "n < length Xr" by simp
  with rows have len: "length (Xr ! n) = d" by simp
  from Suc n show ?case
    by (simp add: accumulate_sample_Num [OF w b n len d y])
qed

lemma spec_round_length: "length (fst (spec_round lr Xr yr (ws, b))) = length ws"
  by (simp add: spec_round_def)

lemma fit_round_Num:
  assumes w: "weights m = map Num ws" and b: "bias m = Num b" and lr: "learningRate m = Num lr"
    and rows: "\<forall>row\<in>set Xr. length row = d" and d: "length ws = d"
    and y: "length yr = length Xr" and ne: "Xr \<noteq> []"
  shows "fit_round (map (map Num) Xr) (map Num yr) (length Xr) d m
         = m\<lparr>weights := map Num (fst (spec_round lr Xr yr (ws, b))),
              bias := Num (snd (spec_round lr Xr yr (ws, b)))\<rparr>"
proof -
  from ne have n0: "real (length Xr) \<noteq> 0" by simp
  let ?dw = "map (\<lambda>k. Num (spec_gradient Xr yr ws b k)) [0..<d]"
  have acc: "fold (accumulate_sample m (map (map Num) Xr) (map Num yr) d) [0..<length Xr]
               (replicate d (Num 0), Num 0) = (?dw, Num (spec_biasGradient Xr yr ws b))"
    using accumulate_loop_Num [OF w b rows d y order_refl]
    by (simp add: spec_gradient_def spec_biasGradient_def)
  have upd: "fold (\<lambda>k ws'. ws'[k := jsub (ws' ! k)
                     (jdiv (jmul (Num lr) (?dw ! k)) (Num (real (length Xr))))])
                 [0..<d] (map Num ws)
               = map Num (fst (spec_round lr Xr yr (ws, b)))"
    using fold_update_upt [of d "map Num ws"
        "\<lambda>k v. jsub v (jdiv (jmul (Num lr) (?dw ! k)) (Num (real (length Xr))))"] n0 d
    by (simp add: spec_round_def)
  show ?thesis
    unfolding fit_round_def acc
    using n0 by (simp add: w b lr upd spec_round_def)
qed

lemma fit_rounds_Num:
  assumes lr: "learningRate m = Num lr"
    and rows: "\<forall>row\<in>set Xr. length row = d"
    and y: "length yr = length Xr" and ne: "Xr \<noteq> []"
  shows "weights m = map Num ws \<Longrightarrow> bias m = Num b \<Longrightarrow> length ws = d \<Longrightarrow>
         fold (\<lambda>i. fit_round (map (map Num) Xr) (map Num yr) (length Xr) d) [0..<t] m
         = m\<lparr>weights := map Num (fst ((spec_round lr Xr yr ^^ t) (ws, b))),
              bias := Num (snd ((spec_round lr Xr yr ^^ t) (ws, b)))\<rparr>
         \<and> length (fst ((spec_round lr Xr yr ^^ t) (ws, b))) = d"
proof (induction t)
  case 0
  then show ?case by simp
next
  case (Suc t)
  let ?R = "(spec_round lr Xr yr ^^ t) (ws, b)"
  let ?m = "m\<lparr>weights := map Num (fst ?R), bias := Num (snd ?R)\<rparr>"
  from Suc have IH: "fold (\<lambda>i. fit_round (map (map Num) Xr) (map Num yr) (length Xr) d) [0..<t] m = ?m"
    and len: "length (fst ?R) = d" by simp_all
  have step: "fit_round (map (map Num) Xr) (map Num yr) (length Xr) d ?m
         = ?m\<lparr>weights := map Num (fst (spec_round lr Xr yr (fst ?R, snd ?R))),
              bias := Num (snd (spec_round lr Xr yr (fst ?R, snd ?R)))\<rparr>"
    by (rule fit_round_Num [OF _ _ _ rows len y ne]) (simp_all add: lr)
  show ?case
    using spec_round_length [of lr Xr yr "fst ?R" "snd ?R"]
    by (simp add: IH step len)
qed

lemma spec_dot_zero:
  assumes "length x \<le> d"
  shows "spec_dot (replicate d 0) x = 0"
proof -
  have "map (\<lambda>k. replicate d (0 :: real) ! k * x ! k) [0..<length x]
          = map (\<lambda>k. 0) [0..<length x]"
    using assms by simp
  then have "spec_dot (replicate d 0) x = sum_list (map (\<lambda>k. 0) [0..<length x])"
    unfolding spec_dot_def by (rule arg_cong)
  then show ?thesis by simp
qed

lemma predictProba_zero_weights:
  assumes "weights m = replicate d (Num 0)" and "bias m = Num 0" and "length x \<le> d"
  shows "predictProba m (map Num x) = Num (1 / 2)"
proof -
  have "linear_reduce (map Num x) (map Num (replicate d 0)) = Num (spec_dot (replicate d 0) x)"
    by (rule linear_reduce_Num) (simp add: assms)
  then show ?thesis
    using assms by (simp add: predictProba_def spec_dot_zero spec_sigmoid_def)
qed

section \<open>Training\<close>

text \<open>
  C2. On a non-empty matrix of finite numbers with rows of one width \<open>d\<close> and as many
  labels as rows, \<^verbatim>\<open>fit\<close> throws nothing and leaves the model with the weights and
  bias obtained from the all-zero weight vector of length \<open>d\<close> and the zero bias by
  exactly \<open>iterations\<close> rounds of the batch update the specification describes
  (error of each sample, gradients summed over all samples, update scaled by the
  learning rate over the sample count). With \<open>iterations = 0\<close> the weights and bias stay
  zero and every prediction on a finite feature vector of at most \<open>d\<close> entries is 0.5.
\<close>

theorem fit_gradient_descent:
  assumes ne: "Xr \<noteq> []" and y: "length yr = length Xr"
    and rows: "\<forall>row\<in>set Xr. length row = d" and lr: "learningRate m = Num lr"
  shows "fit m (map (map Num) Xr) (map Num yr)
           = (None,
              m\<lparr>weights := map Num (fst ((spec_round lr Xr yr ^^ nat (iterations m)) (replicate d 0, 0))),
                bias := Num (snd ((spec_round lr Xr yr ^^ nat (iterations m)) (replicate d 0, 0)))\<rparr>)
         \<and> (iterations m = 0 \<longrightarrow>
              weights (snd (fit m (map (map Num) Xr) (map Num yr))) = replicate d (Num 0)
              \<and> bias (snd (fit m (map (map Num) Xr) (map Num yr))) = Num 0
              \<and> (\<forall>x. length x \<le> d \<longrightarrow>
                    predictProba (snd (fit m (map (map Num) Xr) (map Num yr))) (map Num x)
                      = Num 0.5))"
proof -
  let ?m0 = "m\<lparr>weights := replicate d (Num 0), bias := Num 0\<rparr>"
  let ?R = "(spec_round lr Xr yr ^^ nat (iterations m)) (replicate d 0, 0)"
  from ne obtain x0 rest where X: "Xr = x0 # rest" by (cases Xr) auto
  with rows have x0: "length x0 = d" by simp
  have loop: "fold (\<lambda>i. fit_round (map (map Num) Xr) (map Num yr) (length Xr) d)
                [0..<nat (iterations m)] ?m0
              = ?m0\<lparr>weights := map Num (fst ?R), bias := Num (snd ?R)\<rparr>"
    using fit_rounds_Num [OF _ rows y ne, of ?m0 lr "replicate d 0" 0 "nat (iterations m)"]
    by (simp add: lr)
  have fit_eq: "fit m (map (map Num) Xr) (map Num yr)
           = (None, m\<lparr>weights := map Num (fst ?R), bias := Num (snd ?R)\<rparr>)"
    using loop x0 unfolding fit_def X by (simp add: Let_def)
  have zero: "iterations m = 0 \<Longrightarrow> length x \<le> d \<Longrightarrow>
        predictProba (m\<lparr>weights := map Num (fst ?R), bias := Num (snd ?R)\<rparr>) (map Num x) = Num (1 / 2)" for x
    by (rule predictProba_zero_weights [where d = d]) simp_all
  show ?thesis
    unfolding fit_eq using zero by simp
qed

theorem fit_gradient_descent_witness:
  "fit (new_LogisticRegression (Num (1 / 10)) 1) [[Num 1, Num 2]] [Num 1]
     = (None, \<lparr>weights = [Num (1 / 20), Num (1 / 10)], bias = Num (1 / 20),
               learningRate = Num (1 / 10), iterations = 1\<rparr>)
   \<and> predictProba (snd (fit (new_LogisticRegression (Num (1 / 10)) 0) [[Num 1, Num 2]] [Num 1]))
        [Num 3, Num 4] = Num 0.5"
proof -
  have rows: "\<forall>row\<in>set [[1, 2 :: real]]. length row = 2" by simp
  have a: "[[1, 2 :: real]] \<noteq> []" and b: "length [1 :: real] = length [[1, 2 :: real]]" by simp_all
  have l1: "learningRate (new_LogisticRegression (Num (1 / 10)) 1) = Num (1 / 10)"
    and l0: "learningRate (new_LogisticRegression (Num (1 / 10)) 0) = Num (1 / 10)"
    by (simp_all add: new_LogisticRegression_def)
  have i0: "iterations (new_LogisticRegression (Num (1 / 10)) 0) = 0"
    by (simp add: new_LogisticRegression_def)
  have "length [3, 4 :: real] \<le> 2" by simp
  with fit_gradient_descent [OF a b rows l0] i0
  have second: "predictProba (snd (fit (new_LogisticRegression (Num (1 / 10)) 0) [[Num 1, Num 2]] [Num 1]))
        [Num 3, Num 4] = Num 0.5"
    by (metis (no_types, lifting) list.simps(8,9))
  have first: "fit (new_LogisticRegression (Num (1 / 10)) 1) [[Num 1, Num 2]] [Num 1]
     = (None, \<lparr>weights = [Num (1 / 20), Num (1 / 10)], bias = Num (1 / 20),
               learningRate = Num (1 / 10), iterations = 1\<rparr>)"
    using fit_gradient_descent [OF a b rows l1]
    by (simp add: new_LogisticRegression_def spec_round_def spec_gradient_def
          spec_biasGradient_def spec_error_def spec_dot_def spec_sigmoid_def upt_rec)
  from first second show ?thesis by simp
qed

section \<open>The generator\<close>

lemma generate_fold:
  "fold (generate_step rnd) [0..<n] (0, []) = (7 * n, map (\<lambda>i. make_patient rnd (7 * i) i) [0..<n])"
  by (induction n) (simp_all add: generate_step_def)

lemma generateMaternityData_eq:
  "generateMaternityData count rnd = map (\<lambda>i. make_patient rnd (7 * i) i) [0..<nat count]"
  by (simp add: generateMaternityData_def generate_fold)

lemma ids_upto: "map (\<lambda>i. int i + 1) [0..<n] = [1..int n]"
proof (induction n)
  case 0
  show ?case by simp
next
  case (Suc n)
  have "[1..int (Suc n)] = [1..int n] @ [int n + 1]"
    using upto_rec2 [of 1 "int (Suc n)"] by (simp add: add.commute)
  with Suc show ?case by simp
qed

lemma floor_draw_bounds:
  fixes r :: real
  assumes "0 \<le> r" and "r < 1" and "0 < k"
  shows "0 \<le> \<lfloor>r * real_of_int k\<rfloor> \<and> \<lfloor>r * real_of_int k\<rfloor> \<le> k - 1"
proof -
  have "0 \<le> r * real_of_int k" using assms by simp
  then have lo: "0 \<le> \<lfloor>r * real_of_int k\<rfloor>" by simp
  have "r * real_of_int k < real_of_int k" using assms by simp
  then have "\<lfloor>r * real_of_int k\<rfloor> < k" by (simp add: floor_less_iff)
  with lo show ?thesis by simp
qed

lemma make_patient_ranges:
  assumes rnd: "\<forall>n. 0 \<le> rnd n \<and> rnd n < 1"
  shows "18 \<le> age (make_patient rnd c i) \<and> age (make_patient rnd c i) \<le> 45
       \<and> 4 \<le> laborDuration (make_patient rnd c i) \<and> laborDuration (make_patient rnd c i) \<le> 23
       \<and> 2 \<le> los (make_patient rnd c i) \<and> los (make_patient rnd c i) \<le> 7"
proof -
  have a: "0 \<le> \<lfloor>rnd c * 28\<rfloor> \<and> \<lfloor>rnd c * 28\<rfloor> \<le> 27"
    using floor_draw_bounds [of "rnd c" 28] rnd by simp
  have l: "0 \<le> \<lfloor>rnd (c + 3) * 20\<rfloor> \<and> \<lfloor>rnd (c + 3) * 20\<rfloor> \<le> 19"
    using floor_draw_bounds [of "rnd (c + 3)" 20] rnd by simp
  have s: "0 \<le> \<lfloor>rnd (c + 5) * 2\<rfloor> \<and> \<lfloor>rnd (c + 5) * 2\<rfloor> \<le> 1"
    using floor_draw_bounds [of "rnd (c + 5)" 2] rnd by simp
  have ar: "0 \<le> real_of_int \<lfloor>rnd c * 28\<rfloor> \<and> real_of_int \<lfloor>rnd c * 28\<rfloor> \<le> 27"
    using a by linarith
  have lr: "0 \<le> real_of_int \<lfloor>rnd (c + 3) * 20\<rfloor> \<and> real_of_int \<lfloor>rnd (c + 3) * 20\<rfloor> \<le> 19"
    using l by linarith
  have sr: "0 \<le> real_of_int \<lfloor>rnd (c + 5) * 2\<rfloor> \<and> real_of_int \<lfloor>rnd (c + 5) * 2\<rfloor> \<le> 1"
    using s by linarith
  show ?thesis
    using ar lr sr by (simp add: make_patient_def Let_def)
qed

text \<open>
  C1. The probability compared with the last draw of a record is the base 0.05 plus
  0.15 for a Cesarean delivery, 0.25 for complications, 0.10 for a rural location, 0.10
  for an age above 35 and 0.15 for a vaginal delivery with a stay under 3 days, with no
  clamp; for a Cesarean, complicated, rural record of age 40 and stay 6 it is 0.65; and the
  \<open>readmitted\<close> flag of the \<open>i\<close>-th generated record is exactly "seventh draw of the
  record below that probability", the probability taken on the record's own fields.
\<close>

theorem readmission_probability_additive:
  "readmissionProb dt compl loc a l
     = 0.05 + (if dt = Cesarean then 0.15 else 0) + (if compl then 0.25 else 0)
       + (if loc = Rural then 0.10 else 0) + (if 35 < a then 0.10 else 0)
       + (if dt = Vaginal \<and> l < 3 then 0.15 else 0)
   \<and> readmissionProb Cesarean True Rural 40 6 = 0.65
   \<and> (\<forall>i < nat count.
         readmitted (generateMaternityData count rnd ! i)
           = (rnd (7 * i + 6)
                < readmissionProb (deliveryType (generateMaternityData count rnd ! i))
                    (complications (generateMaternityData count rnd ! i))
                    (location (generateMaternityData count rnd ! i))
                    (age (generateMaternityData count rnd ! i))
                    (los (generateMaternityData count rnd ! i))))"
proof -
  have formula: "readmissionProb dt compl loc a l
     = 0.05 + (if dt = Cesarean then 0.15 else 0) + (if compl then 0.25 else 0)
       + (if loc = Rural then 0.10 else 0) + (if 35 < a then 0.10 else 0)
       + (if dt = Vaginal \<and> l < 3 then 0.15 else 0)" for dt compl loc a l
    by (simp add: readmissionProb_def Let_def)
  have scenario: "readmissionProb Cesarean True Rural 40 6 = 0.65"
    by (simp add: readmissionProb_def Let_def)
  have draw: "readmitted (make_patient rnd c i)
           = (rnd (c + 6)
                < readmissionProb (deliveryType (make_patient rnd c i))
                    (complications (make_patient rnd c i)) (location (make_patient rnd c i))
                    (age (make_patient rnd c i)) (los (make_patient rnd c i)))" for c i
    by (simp add: make_patient_def Let_def)
  show ?thesis
    using formula scenario draw by (simp add: generateMaternityData_eq)
qed

theorem readmission_probability_additive_witness:
  "readmissionProb Cesarean True Rural 40 6 = 0.65
   \<and> readmitted (generateMaternityData 1 (\<lambda>n. 1 / 100) ! 0)
   \<and> deliveryType (generateMaternityData 1 (\<lambda>n. 1 / 100) ! 0) = Vaginal
   \<and> los (generateMaternityData 1 (\<lambda>n. 1 / 100) ! 0) = 2"
proof -
  have "(0::nat) < nat 1" by simp
  with readmission_probability_additive [of Vaginal False Rural 18 2 1 "\<lambda>n. 1 / 100"]
  have "readmissionProb Cesarean True Rural 40 6 = 0.65"
    and "readmitted (generateMaternityData 1 (\<lambda>n. 1 / 100) ! 0)
           = ((1 / 100 :: real)
                < readmissionProb (deliveryType (generateMaternityData 1 (\<lambda>n. 1 / 100) ! 0))
                    (complications (generateMaternityData 1 (\<lambda>n. 1 / 100) ! 0))
                    (location (generateMaternityData 1 (\<lambda>n. 1 / 100) ! 0))
                    (age (generateMaternityData 1 (\<lambda>n. 1 / 100) ! 0))
                    (los (generateMaternityData 1 (\<lambda>n. 1 / 100) ! 0)))"
    by simp_all
  then show ?thesis
    by (simp add: generateMaternityData_eq make_patient_def readmissionProb_def Let_def)
qed

text \<open>
  C8. For a positive count and draws in \<open>[0, 1)\<close>, the generator returns exactly
  \<open>count\<close> records, their ids are \<open>1, \<dots>, count\<close> in order (hence pairwise distinct),
  and every record has age between 18 and 45, labor duration between 4 and 23 and a
  length of stay of at least 2.
\<close>

theorem generate_count_ids_ranges:
  assumes rnd: "\<forall>n. 0 \<le> rnd n \<and> rnd n < 1" and count: "0 < count"
  shows "int (length (generateMaternityData count rnd)) = count
       \<and> map id' (generateMaternityData count rnd) = [1..count]
       \<and> distinct (map id' (generateMaternityData count rnd))
       \<and> (\<forall>p\<in>set (generateMaternityData count rnd).
             18 \<le> age p \<and> age p \<le> 45 \<and> 4 \<le> laborDuration p \<and> laborDuration p \<le> 23
             \<and> 2 \<le> los p)"
proof -
  have len: "int (length (generateMaternityData count rnd)) = count"
    using count by (simp add: generateMaternityData_eq)
  have "map id' (generateMaternityData count rnd) = map (\<lambda>i. int i + 1) [0..<nat count]"
    by (simp add: generateMaternityData_eq make_patient_def Let_def)
  then have ids: "map id' (generateMaternityData count rnd) = [1..count]"
    using count by (simp add: ids_upto)
  have dist: "distinct (map id' (generateMaternityData count rnd))"
    unfolding ids by simp
  have ranges: "18 \<le> age p \<and> age p \<le> 45 \<and> 4 \<le> laborDuration p \<and> laborDuration p \<le> 23
             \<and> 2 \<le> los p" if "p \<in> set (generateMaternityData count rnd)" for p
  proof -
    from that obtain i where "p = make_patient rnd (7 * i) i"
      by (auto simp: generateMaternityData_eq)
    then show ?thesis using make_patient_ranges [OF rnd, of "7 * i" i] by simp
  qed
  from len ids dist ranges show ?thesis by blast
qed

theorem generate_count_ids_ranges_witness:
  "length (generateMaternityData 2 (\<lambda>n. 1 / 2)) = 2
   \<and> map id' (generateMaternityData 2 (\<lambda>n. 1 / 2)) = [1, 2]
   \<and> distinct (map id' (generateMaternityData 2 (\<lambda>n. 1 / 2)))
   \<and> 18 \<le> age (generateMaternityData 2 (\<lambda>n. 1 / 2) ! 0)
   \<and> age (generateMaternityData 2 (\<lambda>n. 1 / 2) ! 0) \<le> 45
   \<and> 4 \<le> laborDuration (generateMaternityData 2 (\<lambda>n. 1 / 2) ! 1)
   \<and> 2 \<le> los (generateMaternityData 2 (\<lambda>n. 1 / 2) ! 1)"
proof -
  have rnd: "\<forall>n :: nat. 0 \<le> (1 / 2 :: real) \<and> (1 / 2 :: real) < 1" by simp
  have count: "(0::int) < 2" by simp
  have two: "[1..2::int] = [1, 2]" by (simp add: upto_rec1)
  note facts = generate_count_ids_ranges [OF rnd count]
  from facts have len: "length (generateMaternityData 2 (\<lambda>n. 1 / 2)) = 2" by simp
  then have mem: "generateMaternityData 2 (\<lambda>n. 1 / 2) ! 0 \<in> set (generateMaternityData 2 (\<lambda>n. 1 / 2))"
    "generateMaternityData 2 (\<lambda>n. 1 / 2) ! 1 \<in> set (generateMaternityData 2 (\<lambda>n. 1 / 2))"
    by simp_all
  from facts mem two len show ?thesis by simp
qed

text \<open>
  C10. Every component of the encoding of a generated record (draws in \<open>[0, 1)\<close>) is a
  number between 0 and 1 inclusive.
\<close>

theorem encoded_generated_in_unit_interval:
  assumes rnd: "\<forall>n. 0 \<le> rnd n \<and> rnd n < 1"
    and p: "p \<in> set (generateMaternityData count rnd)"
  shows "\<forall>v\<in>set (preprocessPatient p). jge v (Num 0) \<and> jge (Num 1) v"
proof -
  from p obtain i where "p = make_patient rnd (7 * i) i"
    by (auto simp: generateMaternityData_eq)
  then have "18 \<le> age p \<and> age p \<le> 45 \<and> 4 \<le> laborDuration p \<and> laborDuration p \<le> 23
             \<and> 2 \<le> los p \<and> los p \<le> 7"
    using make_patient_ranges [OF rnd, of "7 * i" i] by simp
  then show ?thesis
    by (simp add: preprocessPatient_def)
qed

theorem encoded_generated_in_unit_interval_witness:
  "preprocessPatient (generateMaternityData 1 (\<lambda>n. 1 / 2) ! 0)
     = [Num (32 / 45), Num 0, Num (14 / 24), Num 0, Num (3 / 10), Num 0]
   \<and> jge (Num (32 / 45)) (Num 0) \<and> jge (Num 1) (Num (32 / 45))
   \<and> jge (Num (3 / 10)) (Num 0) \<and> jge (Num 1) (Num (3 / 10))"
proof -
  have rnd: "\<forall>n :: nat. 0 \<le> (1 / 2 :: real) \<and> (1 / 2 :: real) < 1" by simp
  have mem: "generateMaternityData 1 (\<lambda>n. 1 / 2) ! 0 \<in> set (generateMaternityData 1 (\<lambda>n. 1 / 2))"
    by (simp add: generateMaternityData_eq)
  have enc: "preprocessPatient (generateMaternityData 1 (\<lambda>n. 1 / 2) ! 0)
     = [Num (32 / 45), Num 0, Num (14 / 24), Num 0, Num (3 / 10), Num 0]"
    by (simp add: generateMaternityData_eq make_patient_def preprocessPatient_def Let_def)
  from encoded_generated_in_unit_interval [OF rnd mem] show ?thesis
    unfolding enc by simp
qed

section \<open>NaN\<close>

lemma jmul_NaN_right [simp]: "jmul v NaN = NaN"
  by (cases v) simp_all

lemma jadd_NaN_right [simp]: "jadd v NaN = NaN"
  by (cases v) simp_all

lemma jge_NaN_right [simp]: "jge v NaN = False"
  by (cases v) simp_all

lemma sigmoid_NaN [simp]: "sigmoid NaN = NaN"
  by (simp add: sigmoid_def)

lemma linear_fold_no_weights:
  "fold (\<lambda>idx acc. jadd acc (jmul (x ! idx) (js_nth [] idx))) [0..<n] acc
     = (if n = 0 then acc else NaN)"
  by (induction n) (simp_all add: js_nth_def)

lemma linear_reduce_no_weights: "linear_reduce x [] = (if x = [] then Num 0 else NaN)"
  by (simp add: linear_reduce_def linear_fold_no_weights)

section \<open>Inference\<close>

text \<open>
  C5, as stated, fails: a freshly constructed model has no weights at all, so on the
  encoding of the default form input (age 28, vaginal, 12 hours, no complications, stay 3,
  urban) the probability is NaN, not 0.5, and the label is not 1.
\<close>

theorem untrained_predict_counterexample:
  "predictProba (new_LogisticRegression (Num (1 / 10)) 1000)
       [Num (28 / 45), Num 0, Num (1 / 2), Num 0, Num (3 / 10), Num 0] = NaN
   \<and> predictProba (new_LogisticRegression (Num (1 / 10)) 1000)
       [Num (28 / 45), Num 0, Num (1 / 2), Num 0, Num (3 / 10), Num 0] \<noteq> Num 0.5
   \<and> predict (new_LogisticRegression (Num (1 / 10)) 1000)
       [Num (28 / 45), Num 0, Num (1 / 2), Num 0, Num (3 / 10), Num 0] \<noteq> 1"
  by (simp add: predict_def predictProba_def new_LogisticRegression_def
        linear_reduce_no_weights)

text \<open>
  C5, amended. On a freshly constructed model (empty weight list, zero bias) neither
  \<^verbatim>\<open>predictProba\<close> nor \<^verbatim>\<open>predict\<close> throws; on every non-empty feature vector the
  probability is NaN and the label 0, and only on the empty vector are they 0.5 and 1.
\<close>

theorem untrained_predict:
  "predictProba (new_LogisticRegression lr its) x = (if x = [] then Num 0.5 else NaN)
   \<and> predict (new_LogisticRegression lr its) x = (if x = [] then 1 else 0)"
  by (simp add: predict_def predictProba_def new_LogisticRegression_def
        linear_reduce_no_weights spec_sigmoid_def)

theorem untrained_predict_witness:
  "predictProba (new_LogisticRegression (Num (1 / 2)) 2000) [Num 1, Num 0] = NaN
   \<and> predict (new_LogisticRegression (Num (1 / 2)) 2000) [Num 1, Num 0] = 0
   \<and> predictProba (new_LogisticRegression (Num (1 / 2)) 2000) [] = Num 0.5"
  using untrained_predict [of "Num (1 / 2)" 2000 "[Num 1, Num 0]"]
    untrained_predict [of "Num (1 / 2)" 2000 "[]"]
  by simp

text \<open>
  C9. The label is 1 exactly when the probability is at least 0.5, and 0 otherwise; a
  probability of exactly 0.5 gives 1.
\<close>

theorem predict_threshold:
  "(predict m x = 1 \<longleftrightarrow> jge (predictProba m x) (Num 0.5))
   \<and> (predict m x = 0 \<longleftrightarrow> \<not> jge (predictProba m x) (Num 0.5))
   \<and> (predictProba m x = Num p \<longrightarrow> (predict m x = 1 \<longleftrightarrow> 0.5 \<le> p))"
  by (auto simp: predict_def)

theorem predict_threshold_witness:
  "predictProba \<lparr>weights = [Num 0], bias = Num 0, learningRate = Num 0.1, iterations = 0\<rparr> [Num 3]
     = Num 0.5
   \<and> predict \<lparr>weights = [Num 0], bias = Num 0, learningRate = Num 0.1, iterations = 0\<rparr> [Num 3] = 1"
proof -
  have p: "predictProba \<lparr>weights = [Num 0], bias = Num 0, learningRate = Num 0.1, iterations = 0\<rparr>
             [Num 3] = Num 0.5"
    by (simp add: predictProba_def linear_reduce_def js_nth_def spec_sigmoid_def)
  with predict_threshold [of "\<lparr>weights = [Num 0], bias = Num 0, learningRate = Num 0.1, iterations = 0\<rparr>"
      "[Num 3]" "0.5"]
  show ?thesis by simp
qed

section \<open>Encoding\<close>

text \<open>
  C6. The encoding is a function of the record alone; it is the six numbers age over 45,
  the Cesarean indicator, labor duration over 24, the complications indicator, length of
  stay over 10 and the rural indicator, in this order, with constant divisors.
\<close>

theorem preprocessPatient_vector:
  "preprocessPatient p
     = [Num (age p / 45), Num (if deliveryType p = Cesarean then 1 else 0),
        Num (laborDuration p / 24), Num (if complications p then 1 else 0),
        Num (los p / 10), Num (if location p = Rural then 1 else 0)]"
  by (simp add: preprocessPatient_def)

theorem preprocessPatient_vector_witness:
  "preprocessPatient \<lparr>id' = 1, age = 45, deliveryType = Cesarean, laborDuration = 24,
       complications = True, los = 10, location = Rural, readmitted = False\<rparr>
     = [Num 1, Num 1, Num 1, Num 1, Num 1, Num 1]"
  using preprocessPatient_vector [of "\<lparr>id' = 1, age = 45, deliveryType = Cesarean,
       laborDuration = 24, complications = True, los = 10, location = Rural, readmitted = False\<rparr>"]
  by simp

section \<open>Inputs that are not a labelled matrix\<close>

text \<open>
  C3, as stated, fails: on a ragged matrix, and on a matrix with fewer labels than rows,
  \<^verbatim>\<open>fit\<close> throws nothing and overwrites the weights and bias (with NaN where an
  absent entry was read).
\<close>

theorem fit_invalid_input_counterexample:
  "fit (new_LogisticRegression (Num (1 / 10)) 1) [[Num 1, Num 2], [Num 3]] [Num 0, Num 1]
     = (None, \<lparr>weights = [Num (1 / 20), NaN], bias = Num 0,
               learningRate = Num (1 / 10), iterations = 1\<rparr>)
   \<and> fit (new_LogisticRegression (Num (1 / 10)) 1) [[Num 1], [Num 3]] [Num 1]
     = (None, \<lparr>weights = [NaN], bias = NaN, learningRate = Num (1 / 10), iterations = 1\<rparr>)"
  by (simp add: fit_def new_LogisticRegression_def fit_round_def accumulate_sample_def
        linear_reduce_def js_nth_def jsub_def spec_sigmoid_def Let_def upt_rec)

text \<open>
  C3, amended. \<^verbatim>\<open>fit\<close> throws exactly when the feature matrix is empty; it then
  throws a TypeError and leaves the model as it was. On every non-empty matrix it throws
  nothing.
\<close>

theorem fit_throws_iff_empty:
  "(fst (fit m X y) = Some TypeError \<longleftrightarrow> X = [])
   \<and> (X = [] \<longrightarrow> snd (fit m X y) = m)
   \<and> (X \<noteq> [] \<longrightarrow> fst (fit m X y) = None)"
  by (cases X) (simp_all add: fit_def Let_def)

theorem fit_throws_iff_empty_witness:
  "fit (new_LogisticRegression (Num (1 / 10)) 1) [] [Num 1]
     = (Some TypeError, new_LogisticRegression (Num (1 / 10)) 1)
   \<and> fst (fit (new_LogisticRegression (Num (1 / 10)) 1) [[Num 1], [Num 3]] [Num 1]) = None"
proof -
  have a: "([] :: jsnum list list) = []" and b: "[[Num 1], [Num 3]] \<noteq> []" by simp_all
  from fit_throws_iff_empty [of "new_LogisticRegression (Num (1 / 10)) 1" "[]" "[Num 1]"] a
    fit_throws_iff_empty [of "new_LogisticRegression (Num (1 / 10)) 1" "[[Num 1], [Num 3]]" "[Num 1]"] b
  show ?thesis by (simp add: prod_eq_iff)
qed

section \<open>The audit\<close>

text \<open>
  C4, as stated, fails: for a predicate that matches no record of the cohort the audit
  returns NaN.
\<close>

theorem auditGroup_empty_counterexample:
  "auditGroup (new_LogisticRegression (Num (1 / 2)) 2000)
     [\<lparr>id' = 1, age = 43, deliveryType = Vaginal, laborDuration = 9, complications = True,
       los = 4, location = Urban, readmitted = False\<rparr>]
     (\<lambda>p. deliveryType p = Cesarean) = NaN"
  by (simp add: auditGroup_def)

text \<open>
  C4, amended. For a predicate that matches no record the audit returns NaN (zero over
  zero); for a predicate with at least one match it returns the number of matching records
  whose predicted label equals the \<open>readmitted\<close> label, over the number of matching
  records, times 100.
\<close>

theorem auditGroup_accuracy:
  "auditGroup model data filter'
     = (if filter filter' data = [] then NaN
        else Num (real (length (filter (\<lambda>p. predict model (preprocessPatient p)
                                            = (if readmitted p then 1 else 0))
                                  (filter filter' data)))
                  / real (length (filter filter' data)) * 100))"
  by (simp add: auditGroup_def Let_def)

theorem auditGroup_accuracy_witness:
  "auditGroup (new_LogisticRegression (Num (1 / 2)) 2000)
     [\<lparr>id' = 1, age = 43, deliveryType = Vaginal, laborDuration = 9, complications = True,
       los = 4, location = Urban, readmitted = False\<rparr>,
      \<lparr>id' = 2, age = 30, deliveryType = Vaginal, laborDuration = 7, complications = False,
       los = 2, location = Rural, readmitted = True\<rparr>]
     (\<lambda>p. deliveryType p = Vaginal) = Num 50
   \<and> auditGroup (new_LogisticRegression (Num (1 / 2)) 2000)
     [\<lparr>id' = 1, age = 43, deliveryType = Vaginal, laborDuration = 9, complications = True,
       los = 4, location = Urban, readmitted = False\<rparr>,
      \<lparr>id' = 2, age = 30, deliveryType = Vaginal, laborDuration = 7, complications = False,
       los = 2, location = Rural, readmitted = True\<rparr>]
     (\<lambda>p. deliveryType p = Cesarean) = NaN"
  using auditGroup_accuracy [of "new_LogisticRegression (Num (1 / 2)) 2000"
     "[\<lparr>id' = 1, age = 43, deliveryType = Vaginal, laborDuration = 9, complications = True,
       los = 4, location = Urban, readmitted = False\<rparr>,
      \<lparr>id' = 2, age = 30, deliveryType = Vaginal, laborDuration = 7, complications = False,
       los = 2, location = Rural, readmitted = True\<rparr>]" "\<lambda>p. deliveryType p = Vaginal"]
    auditGroup_accuracy [of "new_LogisticRegression (Num (1 / 2)) 2000"
     "[\<lparr>id' = 1, age = 43, deliveryType = Vaginal, laborDuration = 9, complications = True,
       los = 4, location = Urban, readmitted = False\<rparr>,
      \<lparr>id' = 2, age = 30, deliveryType = Vaginal, laborDuration = 7, complications = False,
       los = 2, location = Rural, readmitted = True\<rparr>]" "\<lambda>p. deliveryType p = Cesarean"]
  by (simp add: predict_def predictProba_def new_LogisticRegression_def
        linear_reduce_no_weights preprocessPatient_def)

text \<open>
  C7. On four numeric accuracies the flag is raised exactly when the Vaginal/Cesarean
  accuracies or the Urban/Rural accuracies differ by more than 10 in absolute value; a
  difference of exactly 10 does not raise it.
\<close>

theorem biasFlagStatus_threshold:
  "(biasFlagStatus (Some \<lparr>accVaginal = Num v, accCesarean = Num c,
                           accUrban = Num u, accRural = Num r\<rparr>)
      \<longleftrightarrow> 10 < \<bar>v - c\<bar> \<or> 10 < \<bar>u - r\<bar>)
   \<and> \<not> biasFlagStatus (Some \<lparr>accVaginal = Num (c + 10), accCesarean = Num c,
                               accUrban = Num u, accRural = Num u\<rparr>)"
  by (simp add: biasFlagStatus_def)

theorem biasFlagStatus_threshold_witness:
  "biasFlagStatus (Some \<lparr>accVaginal = Num 80, accCesarean = Num 91,
                          accUrban = Num 50, accRural = Num 50\<rparr>)
   \<and> \<not> biasFlagStatus (Some \<lparr>accVaginal = Num 90, accCesarean = Num 80,
                               accUrban = Num 50, accRural = Num 50\<rparr>)"
  using biasFlagStatus_threshold [of 80 91 50 50] biasFlagStatus_threshold [of 90 80 50 50]
  by simp

text \<open>
  An accuracy that is NaN enters the flag as 0 (\<^verbatim>\<open>NaN || 0\<close>), and without an audit
  the flag is not raised.
\<close>

lemma biasFlagStatus_missing_accuracy:
  "(biasFlagStatus (Some \<lparr>accVaginal = NaN, accCesarean = Num c,
                           accUrban = Num u, accRural = Num r\<rparr>)
      \<longleftrightarrow> 10 < \<bar>c\<bar> \<or> 10 < \<bar>u - r\<bar>)
   \<and> \<not> biasFlagStatus None"
  by (simp add: biasFlagStatus_def)

text \<open>
  Both effects together: on a cohort of one vaginal, urban record that the untrained model
  classifies correctly, the Cesarean and rural accuracies are NaN, they enter the flag as
  0, and the flag is raised against the accuracy 100 of the other side.
\<close>

lemma biasFlagStatus_single_patient:
  "ethicsAudit (Some (new_LogisticRegression (Num (1 / 2)) 2000))
     [\<lparr>id' = 1, age = 43, deliveryType = Vaginal, laborDuration = 9, complications = True,
       los = 4, location = Urban, readmitted = False\<rparr>]
     = Some \<lparr>accVaginal = Num 100, accCesarean = NaN, accUrban = Num 100, accRural = NaN\<rparr>
   \<and> biasFlagStatus (ethicsAudit (Some (new_LogisticRegression (Num (1 / 2)) 2000))
     [\<lparr>id' = 1, age = 43, deliveryType = Vaginal, laborDuration = 9, complications = True,
       los = 4, location = Urban, readmitted = False\<rparr>])"
  by (simp add: ethicsAudit_def auditGroup_def biasFlagStatus_def predict_def predictProba_def
        new_LogisticRegression_def linear_reduce_no_weights preprocessPatient_def)

end
